theory Spec2Isabelle
  imports Main
begin

section \<open>Strings\<close>

text \<open>
  Python strings are modelled as \<^typ>\<open>string\<close>.  Hosts and paths are ASCII, so
  \<open>str.lower\<close> is the ASCII lower-casing of the letters \<open>A\<close> to \<open>Z\<close>.
\<close>

definition char_lower :: "char \<Rightarrow> char" where
  "char_lower c =
     (case map_of (zip ''ABCDEFGHIJKLMNOPQRSTUVWXYZ'' ''abcdefghijklmnopqrstuvwxyz'') c of
        Some l \<Rightarrow> l
      | None \<Rightarrow> c)"

definition lower :: "string \<Rightarrow> string" where
  "lower s = map char_lower s"

text \<open>\<open>s.startswith(p)\<close> and \<open>s.endswith("/")\<close>.\<close>

definition startswith :: "string \<Rightarrow> string \<Rightarrow> bool" where
  "startswith s p = (take (length p) s = p)"

definition endswith_slash :: "string \<Rightarrow> bool" where
  "endswith_slash s = (s \<noteq> [] \<and> last s = CHR ''/'')"

text \<open>\<open>p in s\<close> on strings: \<open>p\<close> occurs in \<open>s\<close> as a contiguous substring.\<close>

fun contains :: "string \<Rightarrow> string \<Rightarrow> bool" where
  "contains [] p = (p = [])"
| "contains (c # cs) p = (startswith (c # cs) p \<or> contains cs p)"

text \<open>
  \<open>s.split(sep, maxsplit=1)\<close> for a one-character separator, as the pair of the part
  before the first separator and the optional remainder after it.
\<close>

definition split_once :: "char \<Rightarrow> string \<Rightarrow> string \<times> string option" where
  "split_once sep s =
     (takeWhile (\<lambda>c. c \<noteq> sep) s,
      case dropWhile (\<lambda>c. c \<noteq> sep) s of [] \<Rightarrow> None | _ # r \<Rightarrow> Some r)"

text \<open>
  \<open>s.rsplit(sep, maxsplit=1)\<close> for a non-empty separator: the split at the last
  occurrence of \<open>sep\<close>, or \<open>None\<close> when \<open>sep\<close> does not occur (the result list then has
  one element and unpacking it into two names raises \<open>ValueError\<close>).
\<close>

fun rsplit_once :: "string \<Rightarrow> string \<Rightarrow> (string \<times> string) option" where
  "rsplit_once sep [] = None"
| "rsplit_once sep (c # cs) =
     (case rsplit_once sep cs of
        Some (a, b) \<Rightarrow> Some (c # a, b)
      | None \<Rightarrow>
          if startswith (c # cs) sep then Some ([], drop (length sep) (c # cs)) else None)"

section \<open>Data model\<close>

text \<open>
  The attributes of a \<open>Project\<close> row that the unresolver reads.  Its relations
  (\<open>translations\<close>, \<open>subprojects\<close>, \<open>versions\<close>) are queries and live in the
  lookup record below.
\<close>

record project =
  slug :: string
  language :: string
  single_version :: bool
  default_version :: string

text \<open>The two version managers, \<open>INTERNAL\<close> and \<open>EXTERNAL\<close> of \<open>builds.constants\<close>.\<close>

datatype version_type = INTERNAL | EXTERNAL

text \<open>
  The Django models are read through queries only.  Each query the unresolver issues is
  a field of this record; \<open>'v\<close> and \<open>'d\<close> are the \<open>Version\<close> and \<open>Domain\<close> rows.
  \<^item> \<open>project_by_slug s\<close>: \<open>Project.objects.get(slug=s)\<close>, \<open>None\<close> for \<open>DoesNotExist\<close>;
  \<^item> \<open>translation p l\<close>: \<open>p.translations.filter(language=l).first()\<close>;
  \<^item> \<open>subproject p a\<close>: the \<open>child\<close> of
    \<open>p.subprojects.filter(alias=a).select_related("child").first()\<close>;
  \<^item> \<open>version_of p m s\<close>: \<open>p.versions(manager=m).filter(slug=s).first()\<close>, where the
    slug is \<open>None\<close> when the path has no version segment;
  \<^item> \<open>domain_by_name h\<close>: \<open>Domain.objects.filter(domain=h).select_related("project").first()\<close>,
    and \<open>domain_project d\<close> is \<open>d.project\<close>;
  \<^item> \<open>project_with_header_feature s\<close>:
    \<open>Project.objects.filter(slug=s, feature__feature_id=Feature.RESOLVE_PROJECT_FROM_HEADER).first()\<close>.
\<close>

record ('v, 'd) lookups =
  project_by_slug :: "string \<Rightarrow> project option"
  translation :: "project \<Rightarrow> string \<Rightarrow> project option"
  subproject :: "project \<Rightarrow> string \<Rightarrow> project option"
  version_of :: "project \<Rightarrow> version_type \<Rightarrow> string option \<Rightarrow> 'v option"
  domain_by_name :: "string \<Rightarrow> 'd option"
  domain_project :: "'d \<Rightarrow> project"
  project_with_header_feature :: "string \<Rightarrow> project option"

text \<open>The two settings read by \<open>unresolve_domain\<close>.\<close>

record settings =
  PUBLIC_DOMAIN :: string
  RTD_EXTERNAL_VERSION_DOMAIN :: string

text \<open>The exceptions of the module, with the attributes their constructors store.\<close>

datatype error =
    InvalidXRTDSlugHeaderError
  | SuspiciousHostnameError string
  | InvalidSubdomainError string
  | InvalidExternalDomainError string
  | InvalidCustomDomainError string
  | VersionNotFoundError project "string option" string
  | TranslationNotFoundError project string string
  | InvalidPathForVersionedProjectError project string
  | InvalidExternalVersionError project "string option" string

datatype DomainSourceType = custom_domain | public_domain | external_domain | http_header

record 'd UnresolvedDomain =
  source_domain :: string
  source :: DomainSourceType
  project :: project
  domain :: "'d option"
  external_version_slug :: "string option"

definition is_from_external_domain :: "'d UnresolvedDomain \<Rightarrow> bool" where
  "is_from_external_domain u = (source u = external_domain)"

text \<open>
  \<open>UnresolvedURL\<close>.  Its fields \<open>project\<close> and \<open>domain\<close> are named \<open>current_project\<close>
  and \<open>url_domain\<close> here, apart from the fields of \<open>UnresolvedDomain\<close>; \<open>parsed_url\<close>
  keeps the path, the only component the unresolver reads.
\<close>

record ('v, 'd) UnresolvedURL =
  parent_project :: project
  current_project :: project
  version :: 'v
  filename :: string
  parsed_url :: string
  url_domain :: "'d option"
  external :: bool

text \<open>The request of \<open>unresolve_domain_from_request\<close>: its host and its \<open>X-RTD-Slug\<close> header.\<close>

record request =
  get_host :: string
  X_RTD_Slug :: "string option"

section \<open>The path patterns\<close>

text \<open>
  The two regular expressions are built from \<open>pattern_opts\<close> of \<open>readthedocs.constants\<close>,
  which is a parameter here: each entry is given by the set of strings it matches.
  The language, version and project slugs match inside one path segment (no slug
  contains \<open>/\<close>), so a path has at most one decomposition and the groups are the
  segments between the slashes.
\<close>

record pattern_opts =
  lang_slug :: "string \<Rightarrow> bool"
  version_slug :: "string \<Rightarrow> bool"
  project_slug :: "string \<Rightarrow> bool"
  filename_slug :: "string \<Rightarrow> bool"

text \<open>\<open>{project_slug}+\<close>: one or more repetitions of the project slug pattern.\<close>

function rx_plus :: "(string \<Rightarrow> bool) \<Rightarrow> string \<Rightarrow> bool" where
  "rx_plus P s =
     (P s \<or> list_ex (\<lambda>i. P (take i s) \<and> rx_plus P (drop i s)) [1..<length s])"
  by pat_completeness auto
termination
  by (relation "measure (\<lambda>(P, s). length s)") auto

declare rx_plus.simps [simp del]

text \<open>
  \<open>$\<close> matches at the end of the string and also just before a newline that ends
  the string.
\<close>

definition dollar :: "(string \<Rightarrow> 'a option) \<Rightarrow> string \<Rightarrow> 'a option" where
  "dollar m s =
     (case m s of
        Some r \<Rightarrow> Some r
      | None \<Rightarrow> if s \<noteq> [] \<and> last s = CHR 0x0A then m (butlast s) else None)"

text \<open>
  \<open>^/(?P<language>L)(/((?P<version>V)(/(?P<file>F))?)?)?\<close> up to the end: the groups
  \<open>language\<close>, \<open>version\<close> and \<open>file\<close>; a group that took no part in the match is \<open>None\<close>.
\<close>

definition multiversion_groups ::
  "pattern_opts \<Rightarrow> string \<Rightarrow> (string \<times> string option \<times> string option) option" where
  "multiversion_groups opts s =
     (case s of
        [] \<Rightarrow> None
      | c # rest \<Rightarrow>
          if c \<noteq> CHR ''/'' then None
          else
            (case split_once CHR ''/'' rest of (lang, r1) \<Rightarrow>
               if \<not> lang_slug opts lang then None
               else
                 (case r1 of
                    None \<Rightarrow> Some (lang, None, None)
                  | Some r2 \<Rightarrow>
                      (case split_once CHR ''/'' r2 of (vers, r3) \<Rightarrow>
                         if version_slug opts vers then
                           (case r3 of
                              None \<Rightarrow> Some (lang, Some vers, None)
                            | Some file \<Rightarrow>
                                if filename_slug opts file
                                then Some (lang, Some vers, Some file) else None)
                         else if r2 = [] then Some (lang, None, None)
                         else None))))"

definition multiversion_pattern ::
  "pattern_opts \<Rightarrow> string \<Rightarrow> (string \<times> string option \<times> string option) option" where
  "multiversion_pattern opts = dollar (multiversion_groups opts)"

text \<open>
  \<open>^/projects/(?P<project>P+)(/(?P<file>F))?\<close> up to the end: the groups \<open>project\<close>
  and \<open>file\<close>.
\<close>

definition subproject_groups ::
  "pattern_opts \<Rightarrow> string \<Rightarrow> (string \<times> string option) option" where
  "subproject_groups opts s =
     (if \<not> startswith s ''/projects/'' then None
      else
        (case split_once CHR ''/'' (drop (length ''/projects/'') s) of (alias, r) \<Rightarrow>
           if \<not> rx_plus (project_slug opts) alias then None
           else
             (case r of
                None \<Rightarrow> Some (alias, None)
              | Some file \<Rightarrow>
                  if filename_slug opts file then Some (alias, Some file) else None)))"

definition subproject_pattern ::
  "pattern_opts \<Rightarrow> string \<Rightarrow> (string \<times> string option) option" where
  "subproject_pattern opts = dollar (subproject_groups opts)"

section \<open>The path resolver\<close>

text \<open>
  The result of a matcher: the exception it raises (\<open>Inl\<close>), \<open>None\<close> when there is no
  match, or the tuple of the current project, the version and the file.
\<close>

type_synonym 'v resolved = "project \<times> 'v \<times> string"

text \<open>Truth value of an optional string: \<open>None\<close> and the empty string are false.\<close>

definition truthy :: "string option \<Rightarrow> bool" where
  "truthy x = (case x of None \<Rightarrow> False | Some s \<Rightarrow> s \<noteq> [])"

definition normalize_filename :: "string option \<Rightarrow> string" where
  "normalize_filename name =
     (let f = (if truthy name then the name else ''/'')
      in if \<not> startswith f ''/'' then ''/'' @ f else f)"

definition match_multiversion_project ::
  "pattern_opts \<Rightarrow> ('v, 'd) lookups \<Rightarrow> project \<Rightarrow> string \<Rightarrow> string option
     \<Rightarrow> error + 'v resolved option" where
  "match_multiversion_project opts db parent path ext_slug =
     (case multiversion_pattern opts path of
        None \<Rightarrow> Inr None
      | Some (lang, vers, file_group) \<Rightarrow>
          (let file = normalize_filename file_group in
           case (if language parent = lang then Some parent else translation db parent lang) of
             None \<Rightarrow> Inl (TranslationNotFoundError parent lang file)
           | Some target \<Rightarrow>
               if truthy ext_slug \<and> ext_slug \<noteq> vers
               then Inl (InvalidExternalVersionError target vers (the ext_slug))
               else
                 (case version_of db target (if truthy ext_slug then EXTERNAL else INTERNAL) vers of
                    None \<Rightarrow> Inl (VersionNotFoundError target vers file)
                  | Some v \<Rightarrow> Inr (Some (target, v, file)))))"

definition match_single_version_project ::
  "('v, 'd) lookups \<Rightarrow> project \<Rightarrow> string \<Rightarrow> string option \<Rightarrow> error + 'v resolved option" where
  "match_single_version_project db parent path ext_slug =
     (let file = normalize_filename (Some path);
          vers = (if truthy ext_slug then the ext_slug else default_version parent);
          manager = (if truthy ext_slug then EXTERNAL else INTERNAL)
      in case version_of db parent manager (Some vers) of
           None \<Rightarrow> Inl (VersionNotFoundError parent (Some vers) file)
         | Some v \<Rightarrow> Inr (Some (parent, v, file)))"

text \<open>
  \<open>_match_subproject\<close> and \<open>_unresolve_path_with_parent_project\<close> call each other.
  The second is tried in the order of the source: multiversion when the project is not
  single version, subprojects when \<open>check_subprojects\<close> holds, single version when the
  project is single version, and the first response that is not \<open>None\<close> is returned.
\<close>

function
  match_subproject ::
    "pattern_opts \<Rightarrow> ('v, 'd) lookups \<Rightarrow> project \<Rightarrow> string \<Rightarrow> string option
       \<Rightarrow> error + 'v resolved option"
  and unresolve_path_with_parent_project ::
    "pattern_opts \<Rightarrow> ('v, 'd) lookups \<Rightarrow> project \<Rightarrow> string \<Rightarrow> bool \<Rightarrow> string option
       \<Rightarrow> error + 'v resolved"
where
  "match_subproject opts db parent path ext_slug =
     (case subproject_pattern opts path of
        None \<Rightarrow> Inr None
      | Some (alias, file_group) \<Rightarrow>
          (case subproject db parent alias of
             Some child \<Rightarrow>
               (case unresolve_path_with_parent_project opts db child
                       (normalize_filename file_group) False ext_slug of
                  Inl e \<Rightarrow> Inl e
                | Inr response \<Rightarrow> Inr (Some response))
           | None \<Rightarrow> Inr None))"
| "unresolve_path_with_parent_project opts db parent path check_subprojects ext_slug =
     (case (if \<not> single_version parent
            then match_multiversion_project opts db parent path ext_slug else Inr None) of
        Inl e \<Rightarrow> Inl e
      | Inr (Some response) \<Rightarrow> Inr response
      | Inr None \<Rightarrow>
          (case (if check_subprojects
                 then match_subproject opts db parent path ext_slug else Inr None) of
             Inl e \<Rightarrow> Inl e
           | Inr (Some response) \<Rightarrow> Inr response
           | Inr None \<Rightarrow>
               (case (if single_version parent
                      then match_single_version_project db parent path ext_slug else Inr None) of
                  Inl e \<Rightarrow> Inl e
                | Inr (Some response) \<Rightarrow> Inr response
                | Inr None \<Rightarrow>
                    Inl (InvalidPathForVersionedProjectError parent
                           (normalize_filename (Some path))))))"
  by pat_completeness auto
termination
  by (relation "measure (\<lambda>x. case x of
         Inl _ \<Rightarrow> 1
       | Inr (_, _, _, _, check_subprojects, _) \<Rightarrow> if check_subprojects then 2 else 0)")
     auto

declare match_subproject.simps [simp del]
declare unresolve_path_with_parent_project.simps [simp del]

text \<open>
  The same two functions with a bound on the nesting of calls of
  \<open>_unresolve_path_with_parent_project\<close>: \<open>None\<close> when a call would exceed the bound.
\<close>

fun
  match_subproject_depth ::
    "nat \<Rightarrow> pattern_opts \<Rightarrow> ('v, 'd) lookups \<Rightarrow> project \<Rightarrow> string \<Rightarrow> string option
       \<Rightarrow> (error + 'v resolved option) option"
  and unresolve_path_depth ::
    "nat \<Rightarrow> pattern_opts \<Rightarrow> ('v, 'd) lookups \<Rightarrow> project \<Rightarrow> string \<Rightarrow> bool \<Rightarrow> string option
       \<Rightarrow> (error + 'v resolved) option"
where
  "match_subproject_depth n opts db parent path ext_slug =
     (case subproject_pattern opts path of
        None \<Rightarrow> Some (Inr None)
      | Some (alias, file_group) \<Rightarrow>
          (case subproject db parent alias of
             Some child \<Rightarrow>
               (case unresolve_path_depth n opts db child
                       (normalize_filename file_group) False ext_slug of
                  None \<Rightarrow> None
                | Some (Inl e) \<Rightarrow> Some (Inl e)
                | Some (Inr response) \<Rightarrow> Some (Inr (Some response)))
           | None \<Rightarrow> Some (Inr None)))"
| "unresolve_path_depth 0 opts db parent path check_subprojects ext_slug = None"
| "unresolve_path_depth (Suc n) opts db parent path check_subprojects ext_slug =
     (case (if \<not> single_version parent
            then match_multiversion_project opts db parent path ext_slug else Inr None) of
        Inl e \<Rightarrow> Some (Inl e)
      | Inr (Some response) \<Rightarrow> Some (Inr response)
      | Inr None \<Rightarrow>
          (case (if check_subprojects
                 then match_subproject_depth n opts db parent path ext_slug
                 else Some (Inr None)) of
             None \<Rightarrow> None
           | Some (Inl e) \<Rightarrow> Some (Inl e)
           | Some (Inr (Some response)) \<Rightarrow> Some (Inr response)
           | Some (Inr None) \<Rightarrow>
               (case (if single_version parent
                      then match_single_version_project db parent path ext_slug else Inr None) of
                  Inl e \<Rightarrow> Some (Inl e)
                | Inr (Some response) \<Rightarrow> Some (Inr response)
                | Inr None \<Rightarrow>
                    Some (Inl (InvalidPathForVersionedProjectError parent
                                 (normalize_filename (Some path)))))))"

declare match_subproject_depth.simps [simp del]
declare unresolve_path_depth.simps [simp del]

text \<open>
  \<open>_unresolve\<close>, called by \<open>unresolve_path\<close> with the path as the parsed URL: resolve
  the path from the project of the domain, then append \<open>index.html\<close> to a directory.
\<close>

definition unresolve' ::
  "pattern_opts \<Rightarrow> ('v, 'd) lookups \<Rightarrow> 'd UnresolvedDomain \<Rightarrow> string \<Rightarrow> bool
     \<Rightarrow> error + ('v, 'd) UnresolvedURL" where
  "unresolve' opts db unresolved_domain path append_indexhtml =
     (case unresolve_path_with_parent_project opts db (project unresolved_domain) path True
             (external_version_slug unresolved_domain) of
        Inl e \<Rightarrow> Inl e
      | Inr (cur, v, file) \<Rightarrow>
          Inr \<lparr>parent_project = project unresolved_domain,
               current_project = cur,
               version = v,
               filename = (if append_indexhtml \<and> endswith_slash file
                           then file @ ''index.html'' else file),
               parsed_url = path,
               url_domain = domain unresolved_domain,
               external = is_from_external_domain unresolved_domain\<rparr>)"

definition unresolve_path ::
  "pattern_opts \<Rightarrow> ('v, 'd) lookups \<Rightarrow> 'd UnresolvedDomain \<Rightarrow> string \<Rightarrow> bool
     \<Rightarrow> error + ('v, 'd) UnresolvedURL" where
  "unresolve_path opts db unresolved_domain path append_indexhtml =
     unresolve' opts db unresolved_domain path append_indexhtml"

section \<open>The domain classifier\<close>

definition get_domain_from_host :: "string \<Rightarrow> string" where
  "get_domain_from_host host = fst (split_once CHR '':'' (lower host))"

definition resolve_project_slug :: "('v, 'd) lookups \<Rightarrow> string \<Rightarrow> string \<Rightarrow> error + project" where
  "resolve_project_slug db s dname =
     (case project_by_slug db s of
        Some p \<Rightarrow> Inr p
      | None \<Rightarrow> Inl (InvalidSubdomainError dname))"

text \<open>
  \<open>subdomain, *root_domain = domain.split(".", maxsplit=1)\<close>, the root domain being
  the empty string when the domain has no dot.
\<close>

definition subdomain_of :: "string \<Rightarrow> string" where
  "subdomain_of dname = fst (split_once CHR ''.'' dname)"

definition root_domain_of :: "string \<Rightarrow> string" where
  "root_domain_of dname = (case snd (split_once CHR ''.'' dname) of None \<Rightarrow> [] | Some r \<Rightarrow> r)"

definition unresolve_domain ::
  "settings \<Rightarrow> ('v, 'd) lookups \<Rightarrow> string \<Rightarrow> error + 'd UnresolvedDomain" where
  "unresolve_domain conf db dname =
     (let public_host = get_domain_from_host (PUBLIC_DOMAIN conf);
          external_host = get_domain_from_host (RTD_EXTERNAL_VERSION_DOMAIN conf);
          subdomain = subdomain_of dname;
          root_domain = root_domain_of dname
      in
        if contains dname public_host then
          (if public_host = root_domain then
             (case resolve_project_slug db subdomain dname of
                Inl e \<Rightarrow> Inl e
              | Inr p \<Rightarrow>
                  Inr \<lparr>source_domain = dname, source = public_domain, project = p,
                       domain = None, external_version_slug = None\<rparr>)
           else Inl (SuspiciousHostnameError dname))
        else if contains dname external_host then
          (if external_host = root_domain then
             (case rsplit_once ''--'' subdomain of
                None \<Rightarrow> Inl (InvalidExternalDomainError dname)
              | Some (pslug, vslug) \<Rightarrow>
                  (case resolve_project_slug db pslug dname of
                     Inl e \<Rightarrow> Inl e
                   | Inr p \<Rightarrow>
                       Inr \<lparr>source_domain = dname, source = external_domain, project = p,
                            domain = None, external_version_slug = Some vslug\<rparr>))
           else Inl (SuspiciousHostnameError dname))
        else
          (case domain_by_name db dname of
             None \<Rightarrow> Inl (InvalidCustomDomainError dname)
           | Some domain_object \<Rightarrow>
               Inr \<lparr>source_domain = dname, source = custom_domain,
                    project = domain_project db domain_object,
                    domain = Some domain_object, external_version_slug = None\<rparr>))"

definition unresolve_domain_from_request ::
  "settings \<Rightarrow> ('v, 'd) lookups \<Rightarrow> request \<Rightarrow> error + 'd UnresolvedDomain" where
  "unresolve_domain_from_request conf db req =
     (let host = get_domain_from_host (get_host req);
          header_project_slug = lower (case X_RTD_Slug req of None \<Rightarrow> [] | Some h \<Rightarrow> h)
      in
        if header_project_slug \<noteq> [] then
          (case project_with_header_feature db header_project_slug of
             Some p \<Rightarrow>
               Inr \<lparr>source_domain = host, source = http_header, project = p,
                    domain = None, external_version_slug = None\<rparr>
           | None \<Rightarrow> Inl InvalidXRTDSlugHeaderError)
        else unresolve_domain conf db host)"

section \<open>A sample installation\<close>

text \<open>
  Concrete settings, patterns and rows on which the theorems below are instantiated.
  The language slug accepts two language codes; version and project slugs are
  non-empty segments; the file name pattern is \<open>.*\<close> (any text without a newline).
\<close>

definition sample_opts :: pattern_opts where
  "sample_opts =
     \<lparr>lang_slug = (\<lambda>s. s = ''en'' \<or> s = ''es''),
      version_slug = (\<lambda>s. s \<noteq> [] \<and> CHR ''/'' \<notin> set s \<and> CHR 0x0A \<notin> set s),
      project_slug = (\<lambda>s. s \<noteq> [] \<and> CHR ''/'' \<notin> set s \<and> CHR 0x0A \<notin> set s),
      filename_slug = (\<lambda>s. CHR 0x0A \<notin> set s)\<rparr>"

definition pip :: project where
  "pip = \<lparr>slug = ''pip'', language = ''en'', single_version = False,
          default_version = ''latest''\<rparr>"

definition pip_es :: project where
  "pip_es = \<lparr>slug = ''pip-es'', language = ''es'', single_version = False,
             default_version = ''latest''\<rparr>"

definition sub :: project where
  "sub = \<lparr>slug = ''sub'', language = ''en'', single_version = False,
          default_version = ''latest''\<rparr>"

definition sub2 :: project where
  "sub2 = \<lparr>slug = ''sub2'', language = ''en'', single_version = False,
           default_version = ''latest''\<rparr>"

definition org :: project where
  "org = \<lparr>slug = ''org'', language = ''en'', single_version = False,
          default_version = ''latest''\<rparr>"

definition previews :: project where
  "previews = \<lparr>slug = ''my-external-builds'', language = ''en'', single_version = False,
               default_version = ''latest''\<rparr>"

definition manual :: project where
  "manual = \<lparr>slug = ''manual'', language = ''en'', single_version = True,
             default_version = ''latest''\<rparr>"

text \<open>
  \<open>pip\<close> has the translation \<open>pip_es\<close> and the subproject \<open>sub\<close> under the alias
  \<open>sub\<close>, which has the subproject \<open>sub2\<close>; \<open>org\<close> has the single version project
  \<open>manual\<close> under the alias \<open>sub\<close>, which has the subproject \<open>sub2\<close> too.  Every project
  has the internal version \<open>latest\<close>, and \<open>pip\<close> the external version \<open>pr-42\<close>.  A version
  row is the pair of its project's slug and its own.
\<close>

definition sample_db :: "(string \<times> string, string) lookups" where
  "sample_db =
     \<lparr>project_by_slug =
        (\<lambda>s. find (\<lambda>p. slug p = s) [pip, pip_es, sub, sub2, org, manual, previews]),
      translation = (\<lambda>p l. if p = pip \<and> l = ''es'' then Some pip_es else None),
      subproject =
        (\<lambda>p a. if p = pip \<and> a = ''sub'' then Some sub
               else if p = org \<and> a = ''sub'' then Some manual
               else if (p = sub \<or> p = manual) \<and> a = ''sub2'' then Some sub2
               else None),
      version_of =
        (\<lambda>p m s. if m = INTERNAL \<and> s = Some ''latest'' then Some (slug p, ''latest'')
                 else if m = EXTERNAL \<and> p = pip \<and> s = Some ''pr-42'' then Some (slug p, ''pr-42'')
                 else None),
      domain_by_name = (\<lambda>h. if h = ''docs.example.com'' then Some h else None),
      domain_project = (\<lambda>d. pip),
      project_with_header_feature = (\<lambda>s. if s = ''pip'' then Some pip else None)\<rparr>"

definition sample_settings :: settings where
  "sample_settings =
     \<lparr>PUBLIC_DOMAIN = ''readthedocs.io'', RTD_EXTERNAL_VERSION_DOMAIN = ''readthedocs.build''\<rparr>"

text \<open>Settings in which the external domain is a subdomain of the public domain.\<close>

definition nested_settings :: settings where
  "nested_settings =
     \<lparr>PUBLIC_DOMAIN = ''readthedocs.io'',
      RTD_EXTERNAL_VERSION_DOMAIN = ''external-builds.readthedocs.io''\<rparr>"

section \<open>Facts about the string operations\<close>

lemma startswith_append [simp]: "startswith (p @ s) p"
  by (simp add: startswith_def)

lemma contains_prefix: "contains (p @ s) p"
proof (cases "p @ s")
  case Nil
  then show ?thesis by simp
next
  case (Cons c cs)
  have "startswith (p @ s) p" by simp
  then show ?thesis unfolding Cons by simp
qed

lemma contains_append: "contains (a @ p @ b) p"
proof (induction a)
  case Nil
  show ?case using contains_prefix by simp
next
  case (Cons x a)
  then show ?case by simp
qed

lemma rsplit_once_None_iff:
  "sep \<noteq> [] \<Longrightarrow> (rsplit_once sep s = None) = (\<not> contains s sep)"
  by (induction s) (auto split: option.splits)

lemma rsplit_once_last:
  assumes "sep \<noteq> []" and "\<not> contains (tl (sep @ b)) sep"
  shows "rsplit_once sep (a @ sep @ b) = Some (a, b)"
proof (induction a)
  case Nil
  from assms(1) obtain c cs where sb: "sep @ b = c # cs"
    by (cases "sep @ b") auto
  with assms have "rsplit_once sep cs = None"
    by (simp add: rsplit_once_None_iff)
  moreover have "startswith (c # cs) sep"
    using sb startswith_append [of sep b] by simp
  moreover have "drop (length sep) (c # cs) = b"
    using sb by (metis append_eq_conv_conj)
  ultimately show ?case using sb by simp
next
  case (Cons x a)
  then show ?case by simp
qed

lemma split_once_no_sep:
  "c \<notin> set a \<Longrightarrow> split_once c (a @ c # b) = (a, Some b)"
  by (induction a) (auto simp: split_once_def)

lemma lower_eq_Nil [simp]: "(lower s = []) = (s = [])"
  by (simp add: lower_def)

lemma rx_plusI: "P s \<Longrightarrow> rx_plus P s"
  by (subst rx_plus.simps) simp

lemma contains_Nil [simp]: "contains s []"
  by (cases s) (simp_all add: startswith_def)

lemma contains_root_domain: "contains h (root_domain_of h)"
proof (cases "dropWhile (\<lambda>c. c \<noteq> CHR ''.'') h")
  case Nil
  then show ?thesis
    by (simp add: root_domain_of_def split_once_def del: dropWhile_eq_Nil_conv)
next
  case (Cons c r)
  have "h = (takeWhile (\<lambda>c. c \<noteq> CHR ''.'') h @ [c]) @ r @ []"
    using Cons takeWhile_dropWhile_id [of "\<lambda>c. c \<noteq> CHR ''.''" h] by simp
  then have "contains h r"
    using contains_append [of "takeWhile (\<lambda>c. c \<noteq> CHR ''.'') h @ [c]" r "[]"] by simp
  then show ?thesis using Cons by (simp add: root_domain_of_def split_once_def)
qed

lemma sample_hosts:
  "get_domain_from_host (PUBLIC_DOMAIN sample_settings) = ''readthedocs.io''"
  "get_domain_from_host (RTD_EXTERNAL_VERSION_DOMAIN sample_settings) = ''readthedocs.build''"
  "get_domain_from_host (PUBLIC_DOMAIN nested_settings) = ''readthedocs.io''"
  "get_domain_from_host (RTD_EXTERNAL_VERSION_DOMAIN nested_settings) =
     ''external-builds.readthedocs.io''"
  by (simp_all add: sample_settings_def nested_settings_def get_domain_from_host_def lower_def
      char_lower_def split_once_def)

section \<open>Facts about the path resolver\<close>

lemma unresolve_multiversion_raises:
  assumes "\<not> single_version parent"
    and "match_multiversion_project opts db parent path ext_slug = Inl e"
  shows "unresolve_path_with_parent_project opts db parent path check_subprojects ext_slug = Inl e"
  using assms by (subst unresolve_path_with_parent_project.simps) simp

lemma unresolve_multiversion_returns:
  assumes "\<not> single_version parent"
    and "match_multiversion_project opts db parent path ext_slug = Inr (Some r)"
  shows "unresolve_path_with_parent_project opts db parent path check_subprojects ext_slug = Inr r"
  using assms by (subst unresolve_path_with_parent_project.simps) simp

lemma unresolve_after_multiversion:
  assumes "single_version parent \<or> multiversion_pattern opts path = None"
  shows "unresolve_path_with_parent_project opts db parent path check_subprojects ext_slug =
     (case (if check_subprojects
            then match_subproject opts db parent path ext_slug else Inr None) of
        Inl e \<Rightarrow> Inl e
      | Inr (Some response) \<Rightarrow> Inr response
      | Inr None \<Rightarrow>
          (case (if single_version parent
                 then match_single_version_project db parent path ext_slug else Inr None) of
             Inl e \<Rightarrow> Inl e
           | Inr (Some response) \<Rightarrow> Inr response
           | Inr None \<Rightarrow>
               Inl (InvalidPathForVersionedProjectError parent
                      (normalize_filename (Some path)))))"
  using assms
  by (subst unresolve_path_with_parent_project.simps)
     (auto simp: match_multiversion_project_def)

lemma match_multiversion_matched:
  assumes "multiversion_pattern opts path = Some (lang, vers, file_group)"
  shows "match_multiversion_project opts db parent path ext_slug =
     (case (if language parent = lang then Some parent else translation db parent lang) of
        None \<Rightarrow> Inl (TranslationNotFoundError parent lang (normalize_filename file_group))
      | Some target \<Rightarrow>
          if truthy ext_slug \<and> ext_slug \<noteq> vers
          then Inl (InvalidExternalVersionError target vers (the ext_slug))
          else
            (case version_of db target (if truthy ext_slug then EXTERNAL else INTERNAL) vers of
               None \<Rightarrow> Inl (VersionNotFoundError target vers (normalize_filename file_group))
             | Some v \<Rightarrow> Inr (Some (target, v, normalize_filename file_group))))"
  using assms by (simp add: match_multiversion_project_def Let_def split: option.splits)

lemma unresolve_multiversion_matched:
  assumes "\<not> single_version parent"
    and "multiversion_pattern opts path = Some (lang, vers, file_group)"
  shows "unresolve_path_with_parent_project opts db parent path check_subprojects ext_slug =
     (case (if language parent = lang then Some parent else translation db parent lang) of
        None \<Rightarrow> Inl (TranslationNotFoundError parent lang (normalize_filename file_group))
      | Some target \<Rightarrow>
          if truthy ext_slug \<and> ext_slug \<noteq> vers
          then Inl (InvalidExternalVersionError target vers (the ext_slug))
          else
            (case version_of db target (if truthy ext_slug then EXTERNAL else INTERNAL) vers of
               None \<Rightarrow> Inl (VersionNotFoundError target vers (normalize_filename file_group))
             | Some v \<Rightarrow> Inr (target, v, normalize_filename file_group)))"
proof (cases "match_multiversion_project opts db parent path ext_slug")
  case (Inl e)
  from unresolve_multiversion_raises [OF assms(1) Inl] Inl
  show ?thesis
    unfolding match_multiversion_matched [OF assms(2)]
    by (auto split: option.splits if_splits)
next
  case (Inr r)
  then obtain x where r: "r = Some x"
    unfolding match_multiversion_matched [OF assms(2)]
    by (auto split: option.splits if_splits)
  from unresolve_multiversion_returns [OF assms(1) Inr [unfolded r]] Inr r
  show ?thesis
    unfolding match_multiversion_matched [OF assms(2)]
    by (auto split: option.splits if_splits)
qed

lemma match_subproject_found:
  assumes "subproject_pattern opts path = Some (alias, file_group)"
    and "subproject db parent alias = Some child"
  shows "match_subproject opts db parent path ext_slug =
     (case unresolve_path_with_parent_project opts db child
             (normalize_filename file_group) False ext_slug of
        Inl e \<Rightarrow> Inl e
      | Inr response \<Rightarrow> Inr (Some response))"
  using assms by (subst match_subproject.simps) simp

lemma match_subproject_none:
  assumes "subproject_pattern opts path = None \<or>
           (\<exists>alias file_group. subproject_pattern opts path = Some (alias, file_group) \<and>
              subproject db parent alias = None)"
  shows "match_subproject opts db parent path ext_slug = Inr None"
  using assms by (subst match_subproject.simps) auto

lemma unresolve_no_subprojects:
  "unresolve_path_with_parent_project opts db parent path False ext_slug =
     (case (if \<not> single_version parent
            then match_multiversion_project opts db parent path ext_slug else Inr None) of
        Inl e \<Rightarrow> Inl e
      | Inr (Some response) \<Rightarrow> Inr response
      | Inr None \<Rightarrow>
          (case (if single_version parent
                 then match_single_version_project db parent path ext_slug else Inr None) of
             Inl e \<Rightarrow> Inl e
           | Inr (Some response) \<Rightarrow> Inr response
           | Inr None \<Rightarrow>
               Inl (InvalidPathForVersionedProjectError parent
                      (normalize_filename (Some path)))))"
  by (subst unresolve_path_with_parent_project.simps)
     (auto split: sum.splits option.splits)

lemma depth_no_subprojects:
  "unresolve_path_depth (Suc n) opts db parent path False ext_slug =
     Some (unresolve_path_with_parent_project opts db parent path False ext_slug)"
  unfolding unresolve_path_depth.simps unresolve_no_subprojects
  by (auto split: sum.splits option.splits)

lemma depth_match_subproject:
  "match_subproject_depth (Suc n) opts db parent path ext_slug =
     Some (match_subproject opts db parent path ext_slug)"
  by (subst match_subproject_depth.simps, subst match_subproject.simps)
     (simp add: depth_no_subprojects split: sum.splits option.splits)

lemma depth_two_suffices:
  "unresolve_path_depth (Suc (Suc n)) opts db parent path check_subprojects ext_slug =
     Some (unresolve_path_with_parent_project opts db parent path check_subprojects ext_slug)"
  by (subst unresolve_path_with_parent_project.simps, subst unresolve_path_depth.simps)
     (auto simp: depth_match_subproject split: sum.splits option.splits)

lemma falsy_external_slug:
  assumes "\<not> truthy e1" and "\<not> truthy e2"
  shows "unresolve_path_with_parent_project opts db parent path check_subprojects e1 =
         unresolve_path_with_parent_project opts db parent path check_subprojects e2"
proof -
  have mv: "match_multiversion_project opts db q p e1 = match_multiversion_project opts db q p e2"
    for q p
    using assms
    by (auto simp: match_multiversion_project_def Let_def split: option.splits)
  have sv: "match_single_version_project db q p e1 = match_single_version_project db q p e2"
    for q p
    using assms by (simp add: match_single_version_project_def)
  have inner: "unresolve_path_with_parent_project opts db q p False e1 =
      unresolve_path_with_parent_project opts db q p False e2" for q p
    by (simp add: unresolve_no_subprojects mv sv)
  have ms: "match_subproject opts db parent path e1 = match_subproject opts db parent path e2"
    unfolding match_subproject.simps [of opts db parent path e1]
      match_subproject.simps [of opts db parent path e2] inner
    by (rule refl)
  show ?thesis
    unfolding
      unresolve_path_with_parent_project.simps [of opts db parent path check_subprojects e1]
      unresolve_path_with_parent_project.simps [of opts db parent path check_subprojects e2]
      mv sv ms
    by (rule refl)
qed

text \<open>Unfolding the sample installation.\<close>

lemmas sample_rows =
  sample_opts_def sample_db_def pip_def pip_es_def sub_def sub2_def org_def manual_def
  previews_def

lemmas pattern_eval =
  multiversion_pattern_def multiversion_groups_def subproject_pattern_def
  subproject_groups_def dollar_def split_once_def startswith_def rx_plusI

lemmas matcher_eval =
  match_multiversion_project_def match_single_version_project_def normalize_filename_def
  truthy_def Let_def

section \<open>The unresolved domain\<close>

lemma unresolve_domain_source:
  assumes "unresolve_domain conf db h = Inr u"
  shows "(domain u \<noteq> None) = (source u = custom_domain) \<and>
         (external_version_slug u \<noteq> None) = (source u = external_domain) \<and> source u \<noteq> http_header"
  using assms
  by (auto simp: unresolve_domain_def Let_def resolve_project_slug_def
      split: if_splits option.splits sum.splits)

text \<open>
  C9.  Every \<open>UnresolvedDomain\<close> returned by \<open>unresolve_domain\<close> or by
  \<open>unresolve_domain_from_request\<close> has a domain object exactly when its source is
  \<open>custom_domain\<close>, and an external version slug exactly when its source is
  \<open>external_domain\<close>.
\<close>

theorem unresolved_domain_invariant:
  "(unresolve_domain conf db h = Inr u \<longrightarrow>
      (domain u \<noteq> None) = (source u = custom_domain) \<and>
      (external_version_slug u \<noteq> None) = (source u = external_domain)) \<and>
   (unresolve_domain_from_request conf db req = Inr u \<longrightarrow>
      (domain u \<noteq> None) = (source u = custom_domain) \<and>
      (external_version_slug u \<noteq> None) = (source u = external_domain))"
proof (intro conjI impI)
  assume "unresolve_domain conf db h = Inr u"
  then show "(domain u \<noteq> None) = (source u = custom_domain)"
    and "(external_version_slug u \<noteq> None) = (source u = external_domain)"
    using unresolve_domain_source by blast+
next
  assume r: "unresolve_domain_from_request conf db req = Inr u"
  show "(domain u \<noteq> None) = (source u = custom_domain)"
    and "(external_version_slug u \<noteq> None) = (source u = external_domain)"
    using r unresolve_domain_source [of conf db "get_domain_from_host (get_host req)" u]
    by (auto simp: unresolve_domain_from_request_def Let_def split: if_splits option.splits)
qed

text \<open>
  On the sample installation: a custom domain carries its domain object and no
  version slug, and a request whose host is an external domain carries the version slug
  and no domain object.
\<close>

theorem unresolved_domain_invariant_witness:
  "unresolve_domain sample_settings sample_db ''docs.example.com'' =
     Inr \<lparr>source_domain = ''docs.example.com'', source = custom_domain, project = pip,
          domain = Some ''docs.example.com'', external_version_slug = None\<rparr> \<and>
   unresolve_domain_from_request sample_settings sample_db
       \<lparr>get_host = ''pip--pr-42.readthedocs.build'', X_RTD_Slug = None\<rparr> =
     Inr \<lparr>source_domain = ''pip--pr-42.readthedocs.build'', source = external_domain,
          project = pip, domain = None, external_version_slug = Some ''pr-42''\<rparr> \<and>
   (domain \<lparr>source_domain = ''docs.example.com'', source = custom_domain, project = pip,
          domain = Some ''docs.example.com'', external_version_slug = None\<rparr> \<noteq> None) =
     (custom_domain = custom_domain) \<and>
   (external_version_slug \<lparr>source_domain = ''pip--pr-42.readthedocs.build'',
          source = external_domain, project = pip, domain = None,
          external_version_slug = Some ''pr-42''\<rparr> \<noteq> None) =
     (external_domain = external_domain)"
proof -
  have a: "unresolve_domain sample_settings sample_db ''docs.example.com'' =
     Inr \<lparr>source_domain = ''docs.example.com'', source = custom_domain, project = pip,
          domain = Some ''docs.example.com'', external_version_slug = None\<rparr>"
    by (simp add: unresolve_domain_def Let_def sample_settings_def sample_db_def
        get_domain_from_host_def lower_def char_lower_def split_once_def startswith_def
        subdomain_of_def root_domain_of_def)
  have b: "unresolve_domain_from_request sample_settings sample_db
       \<lparr>get_host = ''pip--pr-42.readthedocs.build'', X_RTD_Slug = None\<rparr> =
     Inr \<lparr>source_domain = ''pip--pr-42.readthedocs.build'', source = external_domain,
          project = pip, domain = None, external_version_slug = Some ''pr-42''\<rparr>"
    by (simp add: unresolve_domain_from_request_def unresolve_domain_def Let_def
        sample_settings_def sample_db_def get_domain_from_host_def lower_def char_lower_def split_once_def
        startswith_def subdomain_of_def root_domain_of_def resolve_project_slug_def pip_def)
  show ?thesis
    using a b
      unresolved_domain_invariant [of sample_settings sample_db "''docs.example.com''"
        "\<lparr>source_domain = ''docs.example.com'', source = custom_domain, project = pip,
          domain = Some ''docs.example.com'', external_version_slug = None\<rparr>"
        "\<lparr>get_host = ''pip--pr-42.readthedocs.build'', X_RTD_Slug = None\<rparr>"]
    by simp
qed

section \<open>The header override\<close>

text \<open>
  C4.  When the \<open>X-RTD-Slug\<close> header is present and not empty, the result has the
  source \<open>http_header\<close> if a project with the (lower-cased) slug and the feature
  exists, and is \<open>InvalidXRTDSlugHeaderError\<close> otherwise, whatever the host; when the
  header is absent or empty, the result is that of \<open>unresolve_domain\<close> on the host.  A
  result with the source \<open>http_header\<close> arises in the first case only.
\<close>

theorem header_override:
  fixes req :: request and db :: "('v, 'd) lookups"
  shows
  "(let R = unresolve_domain_from_request conf db req;
        host = get_domain_from_host (get_host req)
    in (\<forall>h p. X_RTD_Slug req = Some h \<and> h \<noteq> [] \<and>
               project_with_header_feature db (lower h) = Some p \<longrightarrow>
             R = Inr \<lparr>source_domain = host, source = http_header, project = p,
                      domain = None, external_version_slug = None\<rparr>) \<and>
       (\<forall>h. X_RTD_Slug req = Some h \<and> h \<noteq> [] \<and>
             project_with_header_feature db (lower h) = None \<longrightarrow>
             R = Inl InvalidXRTDSlugHeaderError) \<and>
       (X_RTD_Slug req = None \<or> X_RTD_Slug req = Some [] \<longrightarrow>
             R = unresolve_domain conf db host) \<and>
       (\<forall>u. R = Inr u \<and> source u = http_header \<longrightarrow>
             (\<exists>h. X_RTD_Slug req = Some h \<and> h \<noteq> [] \<and>
                  project_with_header_feature db (lower h) = Some (project u))))"
proof -
  have a: "unresolve_domain_from_request conf db req =
             Inr \<lparr>source_domain = get_domain_from_host (get_host req), source = http_header,
                  project = p, domain = None, external_version_slug = None\<rparr>"
    if "X_RTD_Slug req = Some h" "h \<noteq> []" "project_with_header_feature db (lower h) = Some p"
    for h p
    using that by (simp add: unresolve_domain_from_request_def)
  have b: "unresolve_domain_from_request conf db req = Inl InvalidXRTDSlugHeaderError"
    if "X_RTD_Slug req = Some h" "h \<noteq> []" "project_with_header_feature db (lower h) = None"
    for h
    using that by (simp add: unresolve_domain_from_request_def)
  have c: "unresolve_domain_from_request conf db req =
             unresolve_domain conf db (get_domain_from_host (get_host req))"
    if "X_RTD_Slug req = None \<or> X_RTD_Slug req = Some []"
    using that by (auto simp: unresolve_domain_from_request_def)
  have d: "\<exists>h. X_RTD_Slug req = Some h \<and> h \<noteq> [] \<and>
                project_with_header_feature db (lower h) = Some (project u)"
    if r: "unresolve_domain_from_request conf db req = Inr u" and s: "source u = http_header"
    for u
  proof (cases "X_RTD_Slug req")
    case None
    with c r have "unresolve_domain conf db (get_domain_from_host (get_host req)) = Inr u"
      by simp
    with s show ?thesis using unresolve_domain_source by blast
  next
    case (Some h)
    show ?thesis
    proof (cases "h = []")
      case True
      with Some c r have "unresolve_domain conf db (get_domain_from_host (get_host req)) = Inr u"
        by simp
      with s show ?thesis using unresolve_domain_source by blast
    next
      case False
      with Some r show ?thesis
        by (cases "project_with_header_feature db (lower h)")
           (auto simp: unresolve_domain_from_request_def)
    qed
  qed
  show ?thesis
    unfolding Let_def using a b c d by blast
qed

theorem header_override_witness:
  "unresolve_domain_from_request sample_settings sample_db
      \<lparr>get_host = ''Docs.Example.com:8000'', X_RTD_Slug = Some ''PIP''\<rparr> =
     Inr \<lparr>source_domain = ''docs.example.com'', source = http_header, project = pip,
          domain = None, external_version_slug = None\<rparr> \<and>
   unresolve_domain_from_request sample_settings sample_db
      \<lparr>get_host = ''docs.example.com'', X_RTD_Slug = Some ''sub''\<rparr> =
     Inl InvalidXRTDSlugHeaderError \<and>
   unresolve_domain_from_request sample_settings sample_db
      \<lparr>get_host = ''docs.example.com'', X_RTD_Slug = None\<rparr> =
     unresolve_domain sample_settings sample_db ''docs.example.com''"
proof -
  have l: "lower ''PIP'' = ''pip''" "lower ''sub'' = ''sub''"
    by (simp_all add: lower_def char_lower_def)
  have h: "get_domain_from_host ''Docs.Example.com:8000'' = ''docs.example.com''"
      "get_domain_from_host ''docs.example.com'' = ''docs.example.com''"
    by (simp_all add: get_domain_from_host_def lower_def char_lower_def split_once_def)
  have f: "project_with_header_feature sample_db ''pip'' = Some pip"
      "project_with_header_feature sample_db ''sub'' = None"
    by (simp_all add: sample_db_def)
  show ?thesis
    using header_override [of sample_settings sample_db
        "\<lparr>get_host = ''Docs.Example.com:8000'', X_RTD_Slug = Some ''PIP''\<rparr>"]
      header_override [of sample_settings sample_db
        "\<lparr>get_host = ''docs.example.com'', X_RTD_Slug = Some ''sub''\<rparr>"]
      header_override [of sample_settings sample_db
        "\<lparr>get_host = ''docs.example.com'', X_RTD_Slug = None\<rparr>"]
    by (simp add: Let_def l h f)
qed


section \<open>Suspicious host names\<close>

text \<open>
  C2, as the code has it.  The public domain is tested first, so a host whose root
  domain is the public domain is served as a public host even when the external domain
  occurs in it.  A host is refused with \<open>SuspiciousHostnameError\<close>, carrying the host,
  whatever the lookups hold (no custom domain is looked up), when it contains the
  public domain and its root domain differs from it, or when it contains the external
  domain and its root domain is neither the external nor the public domain.
\<close>

theorem suspicious_hostname:
  assumes "contains h (get_domain_from_host (PUBLIC_DOMAIN conf)) \<and>
             root_domain_of h \<noteq> get_domain_from_host (PUBLIC_DOMAIN conf)
           \<or> contains h (get_domain_from_host (RTD_EXTERNAL_VERSION_DOMAIN conf)) \<and>
             root_domain_of h \<noteq> get_domain_from_host (RTD_EXTERNAL_VERSION_DOMAIN conf) \<and>
             root_domain_of h \<noteq> get_domain_from_host (PUBLIC_DOMAIN conf)"
  shows "unresolve_domain conf db h = Inl (SuspiciousHostnameError h)"
  using assms by (auto simp: unresolve_domain_def Let_def)

theorem suspicious_hostname_witness:
  "unresolve_domain sample_settings sample_db ''readthedocs.io.evil.com'' =
     Inl (SuspiciousHostnameError ''readthedocs.io.evil.com'') \<and>
   unresolve_domain sample_settings sample_db ''pip--1.readthedocs.build.evil.com'' =
     Inl (SuspiciousHostnameError ''pip--1.readthedocs.build.evil.com'')"
  using suspicious_hostname [of "''readthedocs.io.evil.com''" sample_settings sample_db]
    suspicious_hostname [of "''pip--1.readthedocs.build.evil.com''" sample_settings sample_db]
  by (simp add: sample_hosts root_domain_of_def split_once_def startswith_def)

text \<open>
  The claim as stated fails when the external domain is a subdomain of the public
  one: the host \<open>my-external-builds.readthedocs.io\<close> contains the external domain,
  its root domain is not the external domain, and it is resolved as the public host of a
  project.
\<close>

theorem suspicious_hostname_counterexample:
  "contains ''my-external-builds.readthedocs.io''
     (get_domain_from_host (RTD_EXTERNAL_VERSION_DOMAIN nested_settings)) \<and>
   root_domain_of ''my-external-builds.readthedocs.io'' \<noteq>
     get_domain_from_host (RTD_EXTERNAL_VERSION_DOMAIN nested_settings) \<and>
   unresolve_domain nested_settings sample_db ''my-external-builds.readthedocs.io'' =
     Inr \<lparr>source_domain = ''my-external-builds.readthedocs.io'', source = public_domain,
          project = previews, domain = None, external_version_slug = None\<rparr>"
  by (simp add: unresolve_domain_def Let_def sample_hosts root_domain_of_def subdomain_of_def
      split_once_def startswith_def resolve_project_slug_def sample_db_def pip_def pip_es_def
      sub_def sub2_def org_def manual_def previews_def)

section \<open>External domains\<close>

text \<open>
  C3, as the code has it.  For a host that does not contain the public domain and whose
  root domain is the external domain: without \<open>--\<close> in the first label the result is
  \<open>InvalidExternalDomainError\<close>; otherwise the label is split at the last \<open>--\<close> into
  the project slug and the version slug, an unknown project slug gives
  \<open>InvalidSubdomainError\<close>, and a known one the source \<open>external_domain\<close> with the
  version slug.
\<close>

theorem external_domain_classification:
  assumes "\<not> contains h (get_domain_from_host (PUBLIC_DOMAIN conf))"
    and "root_domain_of h = get_domain_from_host (RTD_EXTERNAL_VERSION_DOMAIN conf)"
  shows
    "(\<not> contains (subdomain_of h) ''--'' \<longrightarrow>
        unresolve_domain conf db h = Inl (InvalidExternalDomainError h)) \<and>
     (\<forall>pslug vslug.
        subdomain_of h = pslug @ ''--'' @ vslug \<and> \<not> contains (''-'' @ vslug) ''--'' \<longrightarrow>
        unresolve_domain conf db h =
          (case project_by_slug db pslug of
             None \<Rightarrow> Inl (InvalidSubdomainError h)
           | Some p \<Rightarrow>
               Inr \<lparr>source_domain = h, source = external_domain, project = p,
                    domain = None, external_version_slug = Some vslug\<rparr>))"
proof -
  have ext: "contains h (get_domain_from_host (RTD_EXTERNAL_VERSION_DOMAIN conf))"
    using contains_root_domain [of h] assms(2) by simp
  have branch: "unresolve_domain conf db h =
      (case rsplit_once ''--'' (subdomain_of h) of
         None \<Rightarrow> Inl (InvalidExternalDomainError h)
       | Some (pslug, vslug) \<Rightarrow>
           (case project_by_slug db pslug of
              None \<Rightarrow> Inl (InvalidSubdomainError h)
            | Some p \<Rightarrow>
                Inr \<lparr>source_domain = h, source = external_domain, project = p,
                     domain = None, external_version_slug = Some vslug\<rparr>))"
    using assms ext
    by (simp add: unresolve_domain_def Let_def resolve_project_slug_def
        split: option.splits)
  have none: "rsplit_once ''--'' (subdomain_of h) = None"
    if "\<not> contains (subdomain_of h) ''--''"
    using that by (simp add: rsplit_once_None_iff)
  have last: "rsplit_once ''--'' (subdomain_of h) = Some (pslug, vslug)"
    if "subdomain_of h = pslug @ ''--'' @ vslug" "\<not> contains (''-'' @ vslug) ''--''"
    for pslug vslug
    using that rsplit_once_last [of "''--''" vslug pslug] by simp
  show ?thesis
    using branch none last by simp
qed

theorem external_domain_classification_witness:
  "unresolve_domain sample_settings sample_db ''pip.readthedocs.build'' =
     Inl (InvalidExternalDomainError ''pip.readthedocs.build'') \<and>
   unresolve_domain sample_settings sample_db ''pip--dev--pr-42.readthedocs.build'' =
     Inl (InvalidSubdomainError ''pip--dev--pr-42.readthedocs.build'') \<and>
   unresolve_domain sample_settings sample_db ''pip--pr-42.readthedocs.build'' =
     Inr \<lparr>source_domain = ''pip--pr-42.readthedocs.build'', source = external_domain,
          project = pip, domain = None, external_version_slug = Some ''pr-42''\<rparr>"
proof -
  have n: "\<not> contains ''pip.readthedocs.build'' (get_domain_from_host (PUBLIC_DOMAIN sample_settings))"
    "\<not> contains ''pip--dev--pr-42.readthedocs.build''
        (get_domain_from_host (PUBLIC_DOMAIN sample_settings))"
    "\<not> contains ''pip--pr-42.readthedocs.build''
        (get_domain_from_host (PUBLIC_DOMAIN sample_settings))"
    by (simp_all add: sample_hosts startswith_def)
  have r: "root_domain_of ''pip.readthedocs.build'' =
        get_domain_from_host (RTD_EXTERNAL_VERSION_DOMAIN sample_settings)"
    "root_domain_of ''pip--dev--pr-42.readthedocs.build'' =
        get_domain_from_host (RTD_EXTERNAL_VERSION_DOMAIN sample_settings)"
    "root_domain_of ''pip--pr-42.readthedocs.build'' =
        get_domain_from_host (RTD_EXTERNAL_VERSION_DOMAIN sample_settings)"
    by (simp_all add: sample_hosts root_domain_of_def split_once_def)
  have s: "subdomain_of ''pip.readthedocs.build'' = ''pip''"
    "subdomain_of ''pip--dev--pr-42.readthedocs.build'' = ''pip--dev'' @ ''--'' @ ''pr-42''"
    "subdomain_of ''pip--pr-42.readthedocs.build'' = ''pip'' @ ''--'' @ ''pr-42''"
    by (simp_all add: subdomain_of_def split_once_def)
  have p: "project_by_slug sample_db ''pip--dev'' = None"
    "project_by_slug sample_db ''pip'' = Some pip"
    by (simp_all add: sample_db_def pip_def pip_es_def sub_def sub2_def org_def manual_def
        previews_def)
  have c: "\<not> contains ''pip'' ''--''" "\<not> contains (''-'' @ ''pr-42'') ''--''"
    by (simp_all add: startswith_def)
  have "unresolve_domain sample_settings sample_db ''pip.readthedocs.build'' =
     Inl (InvalidExternalDomainError ''pip.readthedocs.build'')"
    using external_domain_classification [OF n(1) r(1), of sample_db] s(1) c(1) by simp
  moreover have "unresolve_domain sample_settings sample_db ''pip--dev--pr-42.readthedocs.build'' =
     Inl (InvalidSubdomainError ''pip--dev--pr-42.readthedocs.build'')"
    using external_domain_classification [OF n(2) r(2), of sample_db,
        THEN conjunct2, THEN spec, THEN spec, of "''pip--dev''" "''pr-42''"] s(2) c(2) p(1)
    by simp
  moreover have "unresolve_domain sample_settings sample_db ''pip--pr-42.readthedocs.build'' =
     Inr \<lparr>source_domain = ''pip--pr-42.readthedocs.build'', source = external_domain,
          project = pip, domain = None, external_version_slug = Some ''pr-42''\<rparr>"
    using external_domain_classification [OF n(3) r(3), of sample_db,
        THEN conjunct2, THEN spec, THEN spec, of "''pip''" "''pr-42''"] s(3) c(2) p(2)
    by simp
  ultimately show ?thesis by simp
qed

text \<open>
  The claim as stated fails when the external domain is a subdomain of the public
  one: the root domain of the host is the external domain, yet the host contains the
  public domain and is refused as suspicious.
\<close>

theorem external_domain_classification_counterexample:
  "root_domain_of ''pip--pr-42.external-builds.readthedocs.io'' =
     get_domain_from_host (RTD_EXTERNAL_VERSION_DOMAIN nested_settings) \<and>
   unresolve_domain nested_settings sample_db ''pip--pr-42.external-builds.readthedocs.io'' =
     Inl (SuspiciousHostnameError ''pip--pr-42.external-builds.readthedocs.io'')"
  by (simp add: unresolve_domain_def Let_def sample_hosts root_domain_of_def subdomain_of_def
      split_once_def startswith_def)

section \<open>The order of the strategies\<close>

text \<open>
  C1, as the code has it.  The strategies are tried in the order multiversion,
  subproject, single version; the multiversion strategy is tried for a project that is
  not single version only.  For such a project a path that matches the multiversion
  pattern is decided by the multiversion strategy alone: a missing translation or
  version is raised as \<open>TranslationNotFoundError\<close> or \<open>VersionNotFoundError\<close> (and a
  mismatch of the external version as \<open>InvalidExternalVersionError\<close>), whatever the
  subprojects are and whether they are checked.  The subproject strategy decides, by
  the result of the recursive call, only when its pattern matches and the alias names a
  subproject of the project.  When subprojects are not checked, the pattern does not
  match or the alias names no subproject, the single version strategy decides for a
  single version project, and the path is invalid for a versioned project otherwise.
\<close>

theorem strategies_in_order:
  fixes db :: "('v, 'd) lookups"
  shows
  "(\<not> single_version parent \<and> multiversion_pattern opts path = Some (lang, vers, file_group) \<longrightarrow>
      unresolve_path_with_parent_project opts db parent path check_subprojects ext_slug =
        (case (if language parent = lang then Some parent else translation db parent lang) of
           None \<Rightarrow> Inl (TranslationNotFoundError parent lang (normalize_filename file_group))
         | Some target \<Rightarrow>
             if truthy ext_slug \<and> ext_slug \<noteq> vers
             then Inl (InvalidExternalVersionError target vers (the ext_slug))
             else
               (case version_of db target (if truthy ext_slug then EXTERNAL else INTERNAL) vers of
                  None \<Rightarrow>
                    Inl (VersionNotFoundError target vers (normalize_filename file_group))
                | Some v \<Rightarrow> Inr (target, v, normalize_filename file_group)))) \<and>
   ((single_version parent \<or> multiversion_pattern opts path = None) \<and> check_subprojects \<and>
    subproject_pattern opts path = Some (sub_alias, sub_file) \<and>
    subproject db parent sub_alias = Some child \<longrightarrow>
      unresolve_path_with_parent_project opts db parent path check_subprojects ext_slug =
        unresolve_path_with_parent_project opts db child (normalize_filename sub_file)
          False ext_slug) \<and>
   (single_version parent \<and>
    (\<not> check_subprojects \<or> subproject_pattern opts path = None \<or>
     subproject_pattern opts path = Some (sub_alias, sub_file) \<and>
     subproject db parent sub_alias = None) \<longrightarrow>
      unresolve_path_with_parent_project opts db parent path check_subprojects ext_slug =
        (case version_of db parent (if truthy ext_slug then EXTERNAL else INTERNAL)
                (Some (if truthy ext_slug then the ext_slug else default_version parent)) of
           None \<Rightarrow>
             Inl (VersionNotFoundError parent
                    (Some (if truthy ext_slug then the ext_slug else default_version parent))
                    (normalize_filename (Some path)))
         | Some v \<Rightarrow> Inr (parent, v, normalize_filename (Some path)))) \<and>
   (\<not> single_version parent \<and> multiversion_pattern opts path = None \<and>
    (\<not> check_subprojects \<or> subproject_pattern opts path = None \<or>
     subproject_pattern opts path = Some (sub_alias, sub_file) \<and>
     subproject db parent sub_alias = None) \<longrightarrow>
      unresolve_path_with_parent_project opts db parent path check_subprojects ext_slug =
        Inl (InvalidPathForVersionedProjectError parent (normalize_filename (Some path))))"
proof (intro conjI impI)
  assume "\<not> single_version parent \<and>
          multiversion_pattern opts path = Some (lang, vers, file_group)"
  then show "unresolve_path_with_parent_project opts db parent path check_subprojects ext_slug =
        (case (if language parent = lang then Some parent else translation db parent lang) of
           None \<Rightarrow> Inl (TranslationNotFoundError parent lang (normalize_filename file_group))
         | Some target \<Rightarrow>
             if truthy ext_slug \<and> ext_slug \<noteq> vers
             then Inl (InvalidExternalVersionError target vers (the ext_slug))
             else
               (case version_of db target (if truthy ext_slug then EXTERNAL else INTERNAL) vers of
                  None \<Rightarrow>
                    Inl (VersionNotFoundError target vers (normalize_filename file_group))
                | Some v \<Rightarrow> Inr (target, v, normalize_filename file_group)))"
    using unresolve_multiversion_matched by blast
next
  assume a: "(single_version parent \<or> multiversion_pattern opts path = None) \<and>
    check_subprojects \<and> subproject_pattern opts path = Some (sub_alias, sub_file) \<and>
    subproject db parent sub_alias = Some child"
  then have m: "match_subproject opts db parent path ext_slug =
     (case unresolve_path_with_parent_project opts db child
             (normalize_filename sub_file) False ext_slug of
        Inl e \<Rightarrow> Inl e
      | Inr response \<Rightarrow> Inr (Some response))"
    using match_subproject_found by blast
  from a have h: "single_version parent \<or> multiversion_pattern opts path = None" by simp
  from a m
  show "unresolve_path_with_parent_project opts db parent path check_subprojects ext_slug =
        unresolve_path_with_parent_project opts db child (normalize_filename sub_file)
          False ext_slug"
    by (simp add: unresolve_after_multiversion [OF h] split: sum.splits)
next
  assume a: "single_version parent \<and>
    (\<not> check_subprojects \<or> subproject_pattern opts path = None \<or>
     subproject_pattern opts path = Some (sub_alias, sub_file) \<and>
     subproject db parent sub_alias = None)"
  then have h: "single_version parent \<or> multiversion_pattern opts path = None" by simp
  from a have n: "\<not> check_subprojects \<or> match_subproject opts db parent path ext_slug = Inr None"
    using match_subproject_none [of opts path db parent ext_slug] by blast
  from a n
  show "unresolve_path_with_parent_project opts db parent path check_subprojects ext_slug =
        (case version_of db parent (if truthy ext_slug then EXTERNAL else INTERNAL)
                (Some (if truthy ext_slug then the ext_slug else default_version parent)) of
           None \<Rightarrow>
             Inl (VersionNotFoundError parent
                    (Some (if truthy ext_slug then the ext_slug else default_version parent))
                    (normalize_filename (Some path)))
         | Some v \<Rightarrow> Inr (parent, v, normalize_filename (Some path)))"
    by (auto simp: unresolve_after_multiversion [OF h] match_single_version_project_def Let_def
        split: option.splits)
next
  assume a: "\<not> single_version parent \<and> multiversion_pattern opts path = None \<and>
    (\<not> check_subprojects \<or> subproject_pattern opts path = None \<or>
     subproject_pattern opts path = Some (sub_alias, sub_file) \<and>
     subproject db parent sub_alias = None)"
  then have h: "single_version parent \<or> multiversion_pattern opts path = None" by simp
  from a have n: "\<not> check_subprojects \<or> match_subproject opts db parent path ext_slug = Inr None"
    using match_subproject_none [of opts path db parent ext_slug] by blast
  from a n
  show "unresolve_path_with_parent_project opts db parent path check_subprojects ext_slug =
        Inl (InvalidPathForVersionedProjectError parent (normalize_filename (Some path)))"
    by (auto simp: unresolve_after_multiversion [OF h])
qed

text \<open>
  On the sample installation: a version that does not exist is raised from the
  multiversion strategy; the subproject \<open>sub2\<close> of \<open>manual\<close> is resolved by the
  recursive call; an alias that names no subproject of \<open>manual\<close> falls through to the
  single version strategy; and a path of \<open>pip\<close> that matches no pattern is invalid.
\<close>

theorem strategies_in_order_witness:
  "unresolve_path_with_parent_project sample_opts sample_db pip ''/en/nope/'' True None =
     Inl (VersionNotFoundError pip (Some ''nope'') ''/'') \<and>
   unresolve_path_with_parent_project sample_opts sample_db manual ''/projects/sub2/en/latest/''
       True None =
     unresolve_path_with_parent_project sample_opts sample_db sub2 ''/en/latest/'' False None \<and>
   unresolve_path_with_parent_project sample_opts sample_db manual ''/projects/nope/x'' True None =
     Inr (manual, (''manual'', ''latest''), ''/projects/nope/x'') \<and>
   unresolve_path_with_parent_project sample_opts sample_db pip ''/foo/bar'' True None =
     Inl (InvalidPathForVersionedProjectError pip ''/foo/bar'')"
proof -
  have "unresolve_path_with_parent_project sample_opts sample_db pip ''/en/nope/'' True None =
     Inl (VersionNotFoundError pip (Some ''nope'') ''/'')"
    using strategies_in_order [where parent = pip and opts = sample_opts
        and path = "''/en/nope/''" and lang = "''en''" and vers = "Some ''nope''"
        and file_group = "Some []" and db = sample_db and check_subprojects = True
        and ext_slug = None]
    by (simp add: sample_rows pattern_eval matcher_eval)
  moreover have "unresolve_path_with_parent_project sample_opts sample_db manual
       ''/projects/sub2/en/latest/'' True None =
     unresolve_path_with_parent_project sample_opts sample_db sub2 ''/en/latest/'' False None"
    using strategies_in_order [where parent = manual and opts = sample_opts
        and path = "''/projects/sub2/en/latest/''" and sub_alias = "''sub2''"
        and sub_file = "Some ''en/latest/''" and child = sub2 and db = sample_db
        and check_subprojects = True and ext_slug = None]
    by (simp add: sample_rows pattern_eval matcher_eval)
  moreover have "unresolve_path_with_parent_project sample_opts sample_db manual
       ''/projects/nope/x'' True None =
     Inr (manual, (''manual'', ''latest''), ''/projects/nope/x'')"
    using strategies_in_order [where parent = manual and opts = sample_opts
        and path = "''/projects/nope/x''" and sub_alias = "''nope''"
        and sub_file = "Some ''x''" and db = sample_db and check_subprojects = True
        and ext_slug = None]
    by (simp add: sample_rows pattern_eval matcher_eval)
  moreover have "unresolve_path_with_parent_project sample_opts sample_db pip ''/foo/bar''
       True None = Inl (InvalidPathForVersionedProjectError pip ''/foo/bar'')"
    using strategies_in_order [where parent = pip and opts = sample_opts
        and path = "''/foo/bar''" and db = sample_db and check_subprojects = True
        and ext_slug = None]
    by (simp add: sample_rows pattern_eval matcher_eval)
  ultimately show ?thesis by simp
qed

text \<open>
  The claim as stated fails for the subproject strategy and for single version
  projects.  The path \<open>/projects/nope/x\<close> matches the subproject pattern, and on
  \<open>manual\<close>, which has no subproject under the alias \<open>nope\<close>, it is served by the
  single version strategy.  The path \<open>/en/nope/\<close> matches the multiversion pattern, and
  on \<open>manual\<close>, a single version project, it is served by the single version strategy
  too, although \<open>manual\<close> has no version \<open>nope\<close>.
\<close>

theorem strategies_in_order_counterexample:
  "subproject_pattern sample_opts ''/projects/nope/x'' = Some (''nope'', Some ''x'') \<and>
   unresolve_path_with_parent_project sample_opts sample_db manual ''/projects/nope/x'' True None =
     Inr (manual, (''manual'', ''latest''), ''/projects/nope/x'') \<and>
   multiversion_pattern sample_opts ''/en/nope/'' = Some (''en'', Some ''nope'', Some []) \<and>
   version_of sample_db manual INTERNAL (Some ''nope'') = None \<and>
   unresolve_path_with_parent_project sample_opts sample_db manual ''/en/nope/'' True None =
     Inr (manual, (''manual'', ''latest''), ''/en/nope/'')"
proof -
  have s: "subproject_pattern sample_opts ''/projects/nope/x'' = Some (''nope'', Some ''x'')"
    by (simp add: sample_rows pattern_eval)
  have m: "multiversion_pattern sample_opts ''/en/nope/'' = Some (''en'', Some ''nope'', Some [])"
    by (simp add: sample_rows pattern_eval)
  have v: "version_of sample_db manual INTERNAL (Some ''nope'') = None"
    by (simp add: sample_rows)
  have sv: "single_version manual" by (simp add: manual_def)
  have n1: "match_subproject sample_opts sample_db manual ''/projects/nope/x'' None = Inr None"
    by (rule match_subproject_none) (simp add: s, simp add: sample_rows)
  have n2: "match_subproject sample_opts sample_db manual ''/en/nope/'' None = Inr None"
    by (rule match_subproject_none) (simp add: sample_rows pattern_eval)
  have h: "single_version manual \<or> multiversion_pattern sample_opts p = None" for p
    using sv by simp
  have r1: "unresolve_path_with_parent_project sample_opts sample_db manual ''/projects/nope/x''
      True None = Inr (manual, (''manual'', ''latest''), ''/projects/nope/x'')"
    unfolding unresolve_after_multiversion [OF h] n1
    by (simp add: sample_rows matcher_eval startswith_def)
  have r2: "unresolve_path_with_parent_project sample_opts sample_db manual ''/en/nope/''
      True None = Inr (manual, (''manual'', ''latest''), ''/en/nope/'')"
    unfolding unresolve_after_multiversion [OF h] n2
    by (simp add: sample_rows matcher_eval startswith_def)
  show ?thesis using s m v r1 r2 by simp
qed

section \<open>Termination and call depth\<close>

text \<open>
  C8.  The path resolver is a total function: its only recursive call, from
  \<open>_match_subproject\<close>, passes \<open>check_subprojects=False\<close>, which is the measure of
  its termination proof.  With calls nested at most two deep it returns its result on
  every input, and a path that resolves into a subproject needs both levels.
\<close>

theorem call_depth_at_most_two:
  fixes db :: "('v, 'd) lookups"
  shows
  "unresolve_path_depth (Suc (Suc n)) opts db parent path check_subprojects ext_slug =
     Some (unresolve_path_with_parent_project opts db parent path check_subprojects ext_slug) \<and>
   ((single_version parent \<or> multiversion_pattern opts path = None) \<and>
    subproject_pattern opts path = Some (sub_alias, sub_file) \<and>
    subproject db parent sub_alias = Some child \<longrightarrow>
      unresolve_path_depth (Suc 0) opts db parent path True ext_slug = None)"
proof (intro conjI impI)
  show "unresolve_path_depth (Suc (Suc n)) opts db parent path check_subprojects ext_slug =
     Some (unresolve_path_with_parent_project opts db parent path check_subprojects ext_slug)"
    by (rule depth_two_suffices)
next
  assume a: "(single_version parent \<or> multiversion_pattern opts path = None) \<and>
    subproject_pattern opts path = Some (sub_alias, sub_file) \<and>
    subproject db parent sub_alias = Some child"
  then have "match_subproject_depth 0 opts db parent path ext_slug = None"
    by (subst match_subproject_depth.simps) (simp add: unresolve_path_depth.simps)
  with a show "unresolve_path_depth (Suc 0) opts db parent path True ext_slug = None"
    by (subst unresolve_path_depth.simps) (auto simp: match_multiversion_project_def)
qed

theorem call_depth_at_most_two_witness:
  "unresolve_path_depth (Suc (Suc 0)) sample_opts sample_db manual ''/projects/sub2/en/latest/''
       True None =
     Some (unresolve_path_with_parent_project sample_opts sample_db manual
       ''/projects/sub2/en/latest/'' True None) \<and>
   unresolve_path_depth (Suc 0) sample_opts sample_db manual ''/projects/sub2/en/latest/''
       True None = None"
  using call_depth_at_most_two [where parent = manual and opts = sample_opts
      and path = "''/projects/sub2/en/latest/''" and sub_alias = "''sub2''"
      and sub_file = "Some ''en/latest/''" and child = sub2 and db = sample_db
      and check_subprojects = True and ext_slug = None and n = 0]
  by (simp add: sample_rows pattern_eval matcher_eval)

section \<open>The external version of a multiversion path\<close>

text \<open>
  C5, as the code has it.  For a project that is not single version, a path that
  matches the multiversion pattern and a non-empty external version slug that differs
  from the version of the path: the language is resolved first, so a language that is
  neither the project's nor one of its translations' gives \<open>TranslationNotFoundError\<close>;
  otherwise the result is \<open>InvalidExternalVersionError\<close> with the target project and
  both slugs.  No version is looked up in either case, so the result is never
  \<open>VersionNotFoundError\<close>.
\<close>

theorem external_version_mismatch:
  assumes "\<not> single_version parent"
    and "multiversion_pattern opts path = Some (lang, vers, file_group)"
    and "e \<noteq> []" and "Some e \<noteq> vers"
  shows "unresolve_path_with_parent_project opts db parent path check_subprojects (Some e) =
     (case (if language parent = lang then Some parent else translation db parent lang) of
        None \<Rightarrow> Inl (TranslationNotFoundError parent lang (normalize_filename file_group))
      | Some target \<Rightarrow> Inl (InvalidExternalVersionError target vers e))"
  using assms
  by (simp add: unresolve_multiversion_matched [OF assms(1) assms(2)] truthy_def
      split: option.splits)

theorem external_version_mismatch_witness:
  "unresolve_path_with_parent_project sample_opts sample_db pip ''/en/pr-43/'' True
       (Some ''pr-42'') =
     Inl (InvalidExternalVersionError pip (Some ''pr-43'') ''pr-42'') \<and>
   unresolve_path_with_parent_project sample_opts sample_db pip ''/es/pr-43/index.html'' True
       (Some ''pr-42'') =
     Inl (InvalidExternalVersionError pip_es (Some ''pr-43'') ''pr-42'')"
proof -
  have "unresolve_path_with_parent_project sample_opts sample_db pip ''/en/pr-43/'' True
       (Some ''pr-42'') =
     Inl (InvalidExternalVersionError pip (Some ''pr-43'') ''pr-42'')"
    using external_version_mismatch [where parent = pip and opts = sample_opts
        and path = "''/en/pr-43/''" and lang = "''en''" and vers = "Some ''pr-43''"
        and file_group = "Some []" and e = "''pr-42''" and db = sample_db
        and check_subprojects = True]
    by (simp add: sample_rows pattern_eval matcher_eval)
  moreover have "unresolve_path_with_parent_project sample_opts sample_db pip
       ''/es/pr-43/index.html'' True (Some ''pr-42'') =
     Inl (InvalidExternalVersionError pip_es (Some ''pr-43'') ''pr-42'')"
    using external_version_mismatch [where parent = pip and opts = sample_opts
        and path = "''/es/pr-43/index.html''" and lang = "''es''" and vers = "Some ''pr-43''"
        and file_group = "Some ''index.html''" and e = "''pr-42''" and db = sample_db
        and check_subprojects = True]
    by (simp add: sample_rows pattern_eval matcher_eval)
  ultimately show ?thesis by simp
qed

text \<open>
  The claim as stated fails when the language of the path has no project: \<open>sub\<close> is in
  English and has no translation, so \<open>/es/pr-43/\<close> under the external version \<open>pr-42\<close>
  raises \<open>TranslationNotFoundError\<close>, not \<open>InvalidExternalVersionError\<close>.
\<close>

theorem external_version_mismatch_counterexample:
  "\<not> single_version sub \<and>
   multiversion_pattern sample_opts ''/es/pr-43/'' = Some (''es'', Some ''pr-43'', Some []) \<and>
   unresolve_path_with_parent_project sample_opts sample_db sub ''/es/pr-43/'' True
       (Some ''pr-42'') =
     Inl (TranslationNotFoundError sub ''es'' ''/'')"
proof -
  have m: "multiversion_pattern sample_opts ''/es/pr-43/'' =
      Some (''es'', Some ''pr-43'', Some [])"
    by (simp add: sample_rows pattern_eval)
  have s: "\<not> single_version sub" by (simp add: sub_def)
  have "unresolve_path_with_parent_project sample_opts sample_db sub ''/es/pr-43/'' True
       (Some ''pr-42'') = Inl (TranslationNotFoundError sub ''es'' ''/'')"
    unfolding unresolve_multiversion_matched [OF s m]
    by (simp add: sample_rows matcher_eval startswith_def)
  with m s show ?thesis by simp
qed

section \<open>Resolving a multiversion path\<close>

text \<open>
  C6.  For a project that is not single version, whose language is \<open>en\<close> or which has
  a translation in \<open>en\<close> (the target project), with the internal version \<open>latest\<close> of the
  target project and no external version slug: \<open>/en/latest/foo/bar.html\<close> resolves to the
  target project, that version and the file \<open>/foo/bar.html\<close>; \<open>/en/latest/\<close> resolves
  to the file \<open>/index.html\<close>, where the matchers return \<open>/\<close> and \<open>_unresolve\<close> appends
  \<open>index.html\<close>.  The patterns are assumed to accept the slugs \<open>en\<close> and \<open>latest\<close> and
  the file names \<open>foo/bar.html\<close> and the empty one.
\<close>

theorem multiversion_round_trip:
  assumes "\<not> single_version parent"
    and "lang_slug opts ''en''" and "version_slug opts ''latest''"
    and "filename_slug opts ''foo/bar.html''" and "filename_slug opts []"
    and "language parent = ''en'' \<and> target = parent \<or>
         language parent \<noteq> ''en'' \<and> translation db parent ''en'' = Some target"
    and "version_of db target INTERNAL (Some ''latest'') = Some v"
    and "project ud = parent" and "\<not> truthy (external_version_slug ud)"
  shows
    "unresolve_path opts db ud ''/en/latest/foo/bar.html'' True =
       Inr \<lparr>parent_project = parent, current_project = target, version = v,
            filename = ''/foo/bar.html'', parsed_url = ''/en/latest/foo/bar.html'',
            url_domain = domain ud, external = is_from_external_domain ud\<rparr> \<and>
     unresolve_path opts db ud ''/en/latest/'' True =
       Inr \<lparr>parent_project = parent, current_project = target, version = v,
            filename = ''/index.html'', parsed_url = ''/en/latest/'',
            url_domain = domain ud, external = is_from_external_domain ud\<rparr> \<and>
     unresolve_path_with_parent_project opts db parent ''/en/latest/'' True
         (external_version_slug ud) = Inr (target, v, ''/'')"
proof -
  have m1: "multiversion_pattern opts ''/en/latest/foo/bar.html'' =
      Some (''en'', Some ''latest'', Some ''foo/bar.html'')"
    using assms(2-4)
    by (simp add: multiversion_pattern_def dollar_def multiversion_groups_def split_once_def)
  have m2: "multiversion_pattern opts ''/en/latest/'' = Some (''en'', Some ''latest'', Some [])"
    using assms(2,3,5)
    by (simp add: multiversion_pattern_def dollar_def multiversion_groups_def split_once_def)
  have t: "(if language parent = ''en'' then Some parent else translation db parent ''en'') =
      Some target"
    using assms(6) by auto
  have r1: "unresolve_path_with_parent_project opts db parent ''/en/latest/foo/bar.html'' True
      (external_version_slug ud) = Inr (target, v, ''/foo/bar.html'')"
    using assms(7,9) t
    by (simp add: unresolve_multiversion_matched [OF assms(1) m1] normalize_filename_def
        truthy_def startswith_def)
  have r2: "unresolve_path_with_parent_project opts db parent ''/en/latest/'' True
      (external_version_slug ud) = Inr (target, v, ''/'')"
    using assms(7,9) t
    by (simp add: unresolve_multiversion_matched [OF assms(1) m2] normalize_filename_def
        truthy_def startswith_def)
  show ?thesis
    using r1 r2 assms(8)
    by (simp add: unresolve_path_def unresolve'_def endswith_slash_def)
qed

theorem multiversion_round_trip_witness:
  "unresolve_path sample_opts sample_db
       \<lparr>source_domain = ''pip.readthedocs.io'', source = public_domain, project = pip,
        domain = None :: string option, external_version_slug = None\<rparr>
       ''/en/latest/foo/bar.html'' True =
     Inr \<lparr>parent_project = pip, current_project = pip, version = (''pip'', ''latest''),
          filename = ''/foo/bar.html'', parsed_url = ''/en/latest/foo/bar.html'',
          url_domain = None, external = False\<rparr> \<and>
   unresolve_path sample_opts sample_db
       \<lparr>source_domain = ''pip.readthedocs.io'', source = public_domain, project = pip,
        domain = None :: string option, external_version_slug = None\<rparr>
       ''/en/latest/'' True =
     Inr \<lparr>parent_project = pip, current_project = pip, version = (''pip'', ''latest''),
          filename = ''/index.html'', parsed_url = ''/en/latest/'',
          url_domain = None, external = False\<rparr>"
  using multiversion_round_trip [where parent = pip and opts = sample_opts and target = pip
      and db = sample_db and v = "(''pip'', ''latest'')"
      and ud = "\<lparr>source_domain = ''pip.readthedocs.io'', source = public_domain, project = pip,
        domain = None, external_version_slug = None\<rparr>"]
  by (simp add: sample_rows truthy_def is_from_external_domain_def)

section \<open>Subprojects of subprojects\<close>

text \<open>
  C7, as the code has it.  When the project has a subproject under the alias \<open>sub\<close>
  that is not single version, the path \<open>/projects/sub/projects/sub2/\<close> fails with
  \<open>InvalidPathForVersionedProjectError\<close> for the subproject and the rest of the path,
  whatever subprojects the subproject has: the recursive call does not check them.
  (\<open>projects\<close> is assumed not to be a language slug, and the patterns to accept the
  alias and the file name.)
\<close>

theorem nested_subproject_not_resolved:
  assumes "subproject db parent ''sub'' = Some child"
    and "\<not> single_version child"
    and "\<not> lang_slug opts ''projects''"
    and "project_slug opts ''sub''"
    and "filename_slug opts ''projects/sub2/''"
  shows "unresolve_path_with_parent_project opts db parent ''/projects/sub/projects/sub2/'' True
           ext_slug =
         Inl (InvalidPathForVersionedProjectError child ''/projects/sub2/'')"
proof -
  have m1: "multiversion_pattern opts ''/projects/sub/projects/sub2/'' = None"
    using assms(3)
    by (simp add: multiversion_pattern_def dollar_def multiversion_groups_def split_once_def)
  have m2: "multiversion_pattern opts ''/projects/sub2/'' = None"
    using assms(3)
    by (simp add: multiversion_pattern_def dollar_def multiversion_groups_def split_once_def)
  have s: "subproject_pattern opts ''/projects/sub/projects/sub2/'' =
      Some (''sub'', Some ''projects/sub2/'')"
    using assms(4,5)
    by (simp add: subproject_pattern_def dollar_def subproject_groups_def split_once_def
        startswith_def rx_plusI)
  have n: "normalize_filename (Some ''projects/sub2/'') = ''/projects/sub2/''"
    "normalize_filename (Some ''/projects/sub2/'') = ''/projects/sub2/''"
    by (simp_all add: normalize_filename_def truthy_def startswith_def)
  have inner: "unresolve_path_with_parent_project opts db child ''/projects/sub2/'' False
      ext_slug = Inl (InvalidPathForVersionedProjectError child ''/projects/sub2/'')"
    using assms(2) m2
    by (simp add: unresolve_no_subprojects match_multiversion_project_def n)
  have sp: "match_subproject opts db parent ''/projects/sub/projects/sub2/'' ext_slug =
      Inl (InvalidPathForVersionedProjectError child ''/projects/sub2/'')"
    by (simp add: match_subproject_found [OF s assms(1)] n inner)
  have h: "single_version parent \<or>
      multiversion_pattern opts ''/projects/sub/projects/sub2/'' = None"
    using m1 by simp
  show ?thesis
    by (simp add: unresolve_after_multiversion [OF h] sp)
qed

theorem nested_subproject_not_resolved_witness:
  "unresolve_path_with_parent_project sample_opts sample_db pip
       ''/projects/sub/projects/sub2/'' True None =
     Inl (InvalidPathForVersionedProjectError sub ''/projects/sub2/'') \<and>
   subproject sample_db pip ''sub'' = Some sub \<and>
   subproject sample_db sub ''sub2'' = Some sub2"
  using nested_subproject_not_resolved [where db = sample_db and parent = pip and child = sub
      and opts = sample_opts and ext_slug = None]
  by (simp add: sample_rows)

text \<open>
  The claim as stated fails when the subproject is a single version project: every
  path matches the single version strategy, so the rest of the path is the file of the
  subproject's default version.  The path still does not resolve into \<open>sub2\<close>.
\<close>

theorem nested_subproject_counterexample:
  "subproject sample_db org ''sub'' = Some manual \<and>
   subproject sample_db manual ''sub2'' = Some sub2 \<and>
   unresolve_path_with_parent_project sample_opts sample_db org
       ''/projects/sub/projects/sub2/'' True None =
     Inr (manual, (''manual'', ''latest''), ''/projects/sub2/'')"
proof -
  have m1: "multiversion_pattern sample_opts ''/projects/sub/projects/sub2/'' = None"
    by (simp add: sample_rows pattern_eval)
  have s: "subproject_pattern sample_opts ''/projects/sub/projects/sub2/'' =
      Some (''sub'', Some ''projects/sub2/'')"
    by (simp add: sample_rows pattern_eval)
  have c: "subproject sample_db org ''sub'' = Some manual"
    "subproject sample_db manual ''sub2'' = Some sub2"
    by (simp_all add: sample_rows)
  have inner: "unresolve_path_with_parent_project sample_opts sample_db manual
      (normalize_filename (Some ''projects/sub2/'')) False None =
      Inr (manual, (''manual'', ''latest''), ''/projects/sub2/'')"
    unfolding unresolve_no_subprojects
    by (simp add: sample_rows matcher_eval startswith_def)
  have sp: "match_subproject sample_opts sample_db org ''/projects/sub/projects/sub2/'' None =
      Inr (Some (manual, (''manual'', ''latest''), ''/projects/sub2/''))"
    by (simp add: match_subproject_found [OF s c(1)] inner)
  have h: "single_version org \<or>
      multiversion_pattern sample_opts ''/projects/sub/projects/sub2/'' = None"
    using m1 by simp
  have "unresolve_path_with_parent_project sample_opts sample_db org
       ''/projects/sub/projects/sub2/'' True None =
     Inr (manual, (''manual'', ''latest''), ''/projects/sub2/'')"
    by (simp add: unresolve_after_multiversion [OF h] sp)
  with c show ?thesis by simp
qed

section \<open>An empty external version slug\<close>

text \<open>
  C10, as the code has it.  For a host \<open>slug--.\<close> followed by the external domain,
  where the slug has no dot and is the slug of a project, and the host does not contain
  the public domain: the host is classified with the source \<open>external_domain\<close> and the
  empty string as external version slug.  The path resolver treats the empty slug as
  no slug at all (the internal versions are searched and no mismatch is checked), and
  the \<open>UnresolvedURL\<close> of such a domain is external.
\<close>

theorem empty_external_version_slug:
  assumes "CHR ''.'' \<notin> set s"
    and "\<not> contains (s @ ''--.'' @ get_domain_from_host (RTD_EXTERNAL_VERSION_DOMAIN conf))
           (get_domain_from_host (PUBLIC_DOMAIN conf))"
    and "project_by_slug db s = Some p"
  shows
    "unresolve_domain conf db (s @ ''--.'' @ get_domain_from_host (RTD_EXTERNAL_VERSION_DOMAIN conf)) =
       Inr \<lparr>source_domain = s @ ''--.'' @ get_domain_from_host (RTD_EXTERNAL_VERSION_DOMAIN conf),
            source = external_domain, project = p, domain = None,
            external_version_slug = Some []\<rparr> \<and>
     unresolve_path_with_parent_project opts db parent path check_subprojects (Some []) =
       unresolve_path_with_parent_project opts db parent path check_subprojects None \<and>
     unresolve_path opts db
         \<lparr>source_domain = s @ ''--.'' @ get_domain_from_host (RTD_EXTERNAL_VERSION_DOMAIN conf),
          source = external_domain, project = p, domain = None,
          external_version_slug = Some []\<rparr> path append_indexhtml =
       (case unresolve_path_with_parent_project opts db p path True None of
          Inl e \<Rightarrow> Inl e
        | Inr (cur, v, file) \<Rightarrow>
            Inr \<lparr>parent_project = p, current_project = cur, version = v,
                 filename = (if append_indexhtml \<and> endswith_slash file
                             then file @ ''index.html'' else file),
                 parsed_url = path, url_domain = None, external = True\<rparr>)"
proof -
  let ?ext = "get_domain_from_host (RTD_EXTERNAL_VERSION_DOMAIN conf)"
  let ?h = "s @ ''--.'' @ ?ext"
  have h: "?h = (s @ ''--'') @ CHR ''.'' # ?ext" by simp
  have sp: "split_once CHR ''.'' ?h = (s @ ''--'', Some ?ext)"
    unfolding h using assms(1) by (intro split_once_no_sep) simp
  have sub: "subdomain_of ?h = s @ ''--''" and root: "root_domain_of ?h = ?ext"
    using sp by (simp_all add: subdomain_of_def root_domain_of_def)
  have ext: "contains ?h ?ext"
    using contains_append [of "s @ ''--.''" ?ext "[]"] by simp
  have rs: "rsplit_once ''--'' (s @ ''--'') = Some (s, [])"
    using rsplit_once_last [of "''--''" "[]" s] by (simp add: startswith_def)
  have d: "unresolve_domain conf db ?h =
       Inr \<lparr>source_domain = ?h, source = external_domain, project = p, domain = None,
            external_version_slug = Some []\<rparr>"
    unfolding unresolve_domain_def Let_def sub root rs
    using assms(2,3) ext
    by (simp add: resolve_project_slug_def)
  have f: "unresolve_path_with_parent_project opts db q path c (Some []) =
       unresolve_path_with_parent_project opts db q path c None" for q c
    by (rule falsy_external_slug) (simp_all add: truthy_def)
  show ?thesis
    using d f
    by (simp add: unresolve_path_def unresolve'_def is_from_external_domain_def
        split: sum.splits)
qed

theorem empty_external_version_slug_witness:
  "unresolve_domain sample_settings sample_db ''pip--.readthedocs.build'' =
     Inr \<lparr>source_domain = ''pip--.readthedocs.build'', source = external_domain, project = pip,
          domain = None, external_version_slug = Some []\<rparr> \<and>
   unresolve_path sample_opts sample_db
       \<lparr>source_domain = ''pip--.readthedocs.build'', source = external_domain, project = pip,
        domain = None, external_version_slug = Some []\<rparr> ''/en/latest/'' True =
     Inr \<lparr>parent_project = pip, current_project = pip, version = (''pip'', ''latest''),
          filename = ''/index.html'', parsed_url = ''/en/latest/'', url_domain = None,
          external = True\<rparr>"
proof -
  have c: "\<not> contains (''pip'' @ ''--.'' @
              get_domain_from_host (RTD_EXTERNAL_VERSION_DOMAIN sample_settings))
            (get_domain_from_host (PUBLIC_DOMAIN sample_settings))"
    by (simp add: sample_hosts startswith_def)
  have p: "project_by_slug sample_db ''pip'' = Some pip"
    by (simp add: sample_rows)
  have d: "CHR ''.'' \<notin> set ''pip''" by simp
  have m: "multiversion_pattern sample_opts ''/en/latest/'' =
      Some (''en'', Some ''latest'', Some [])"
    by (simp add: sample_rows pattern_eval)
  have s: "\<not> single_version pip" by (simp add: pip_def)
  have r: "unresolve_path_with_parent_project sample_opts sample_db pip ''/en/latest/'' True
      None = Inr (pip, (''pip'', ''latest''), ''/'')"
    unfolding unresolve_multiversion_matched [OF s m]
    by (simp add: sample_rows matcher_eval startswith_def)
  show ?thesis
    using empty_external_version_slug [OF d c p, where opts = sample_opts
        and path = "''/en/latest/''" and append_indexhtml = True]
    by (simp add: sample_hosts r endswith_slash_def)
qed

text \<open>
  The claim as stated fails when the external domain is a subdomain of the public
  one: the host of the form \<open>slug--.\<close> followed by the external domain contains the
  public domain and is refused as suspicious.
\<close>

theorem empty_external_version_slug_counterexample:
  "''pip--.external-builds.readthedocs.io'' =
     ''pip'' @ ''--.'' @ get_domain_from_host (RTD_EXTERNAL_VERSION_DOMAIN nested_settings) \<and>
   project_by_slug sample_db ''pip'' = Some pip \<and>
   unresolve_domain nested_settings sample_db ''pip--.external-builds.readthedocs.io'' =
     Inl (SuspiciousHostnameError ''pip--.external-builds.readthedocs.io'')"
  by (simp add: unresolve_domain_def Let_def sample_hosts root_domain_of_def subdomain_of_def
      split_once_def startswith_def sample_rows)

end
